theory Spec2Isabelle
  imports Complex_Main "HOL-Library.Signed_Division"
begin

section \<open>Numeric conventions\<close>

text \<open>
  Go's \<^verbatim>\<open>float64\<close> values are modelled by \<^typ>\<open>real\<close> (finite values, exact
  arithmetic) and Go's \<^verbatim>\<open>int\<close> by \<^typ>\<open>int\<close>. The conversion
  \<^verbatim>\<open>int(f)\<close> of a float truncates towards zero; \<^verbatim>\<open>float64(i)\<close> is
  \<^const>\<open>real_of_int\<close>.
\<close>

definition to_int :: "real \<Rightarrow> int" where
  "to_int r = (if 0 \<le> r then \<lfloor>r\<rfloor> else \<lceil>r\<rceil>)"

section \<open>main.go: configuration and STL helpers\<close>

definition DPI :: real where
  "DPI = 1000"

definition PixelToMM :: real where
  "PixelToMM = 25.4 / DPI"

record Point =
  pt_X :: real
  pt_Y :: real
  pt_Z :: real

type_synonym triangle = "Point \<times> Point \<times> Point"

definition addQuad :: "triangle list \<Rightarrow> Point \<Rightarrow> Point \<Rightarrow> Point \<Rightarrow> Point \<Rightarrow> triangle list" where
  "addQuad triangles a b c d = (triangles @ [(a, b, c)]) @ [(c, d, a)]"

definition AddBox :: "triangle list \<Rightarrow> real \<Rightarrow> real \<Rightarrow> real \<Rightarrow> real \<Rightarrow> real \<Rightarrow> triangle list" where
  "AddBox triangles x y w h zHeight =
    (let x0 = x; y0 = y;
         x1 = x + w; y1 = y + h;
         z0 = 0; z1 = zHeight;
         p000 = \<lparr>pt_X = x0, pt_Y = y0, pt_Z = z0\<rparr>;
         p100 = \<lparr>pt_X = x1, pt_Y = y0, pt_Z = z0\<rparr>;
         p110 = \<lparr>pt_X = x1, pt_Y = y1, pt_Z = z0\<rparr>;
         p010 = \<lparr>pt_X = x0, pt_Y = y1, pt_Z = z0\<rparr>;
         p001 = \<lparr>pt_X = x0, pt_Y = y0, pt_Z = z1\<rparr>;
         p101 = \<lparr>pt_X = x1, pt_Y = y0, pt_Z = z1\<rparr>;
         p111 = \<lparr>pt_X = x1, pt_Y = y1, pt_Z = z1\<rparr>;
         p011 = \<lparr>pt_X = x0, pt_Y = y1, pt_Z = z1\<rparr>;
         t1 = addQuad triangles p000 p010 p110 p100;
         t2 = addQuad t1 p101 p111 p011 p001;
         t3 = addQuad t2 p000 p100 p101 p001;
         t4 = addQuad t3 p100 p110 p111 p101;
         t5 = addQuad t4 p110 p010 p011 p111;
         t6 = addQuad t5 p010 p000 p001 p011
     in t6)"

section \<open>main.go: meshing\<close>

text \<open>
  An \<^verbatim>\<open>image.Image\<close> as \<^verbatim>\<open>GenerateMeshFromImage\<close> reads it: the corner
  \<^verbatim>\<open>Bounds().Max\<close> and the colour \<^verbatim>\<open>At(x, y).RGBA()\<close> of each pixel (four
  unsigned channel values). \<^verbatim>\<open>StencilHeight\<close> is a package variable set from the
  command line; the model takes it as an argument.
\<close>

type_synonym rgba = "nat \<times> nat \<times> nat \<times> nat"

record Image =
  img_Max_X :: int
  img_Max_Y :: int
  img_At :: "int \<Rightarrow> int \<Rightarrow> rgba"

definition isSolid :: "rgba \<Rightarrow> bool" where
  "isSolid c = (case c of (r, g, b, a) \<Rightarrow> r < 10000 \<and> g < 10000 \<and> b < 10000)"

text \<open>One iteration of the inner loop over \<open>x\<close>; the state is \<open>(startX, triangles)\<close>.\<close>

fun scan_pixel :: "Image \<Rightarrow> real \<Rightarrow> int \<Rightarrow> int \<Rightarrow> int \<times> triangle list \<Rightarrow> int \<times> triangle list" where
  "scan_pixel img StencilHeight y x (startX, triangles) =
    (if isSolid (img_At img x y) then
       (if startX = -1 then (x, triangles) else (startX, triangles))
     else
       (if startX \<noteq> -1 then
          (let stripLen = x - startX in
            (-1, AddBox triangles
                   (real_of_int startX * PixelToMM)
                   (real_of_int y * PixelToMM)
                   (real_of_int stripLen * PixelToMM)
                   PixelToMM
                   StencilHeight))
        else (startX, triangles)))"

text \<open>One iteration of the outer loop over \<open>y\<close>: the scan of a row and the flush at its end.\<close>

definition scan_row :: "Image \<Rightarrow> real \<Rightarrow> int \<Rightarrow> int \<Rightarrow> triangle list \<Rightarrow> triangle list" where
  "scan_row img StencilHeight width y triangles =
    (case fold (scan_pixel img StencilHeight y) [0..width - 1] (-1, triangles) of
      (startX, triangles') \<Rightarrow>
        (if startX \<noteq> -1 then
           (let stripLen = width - startX in
             AddBox triangles'
               (real_of_int startX * PixelToMM)
               (real_of_int y * PixelToMM)
               (real_of_int stripLen * PixelToMM)
               PixelToMM
               StencilHeight)
         else triangles'))"

definition GenerateMeshFromImage :: "Image \<Rightarrow> real \<Rightarrow> triangle list" where
  "GenerateMeshFromImage img StencilHeight =
    (let width = img_Max_X img; height = img_Max_Y img
     in fold (scan_row img StencilHeight width) [0..height - 1] [])"

section \<open>gerber.go: the library functions the interpreter calls\<close>

subsection \<open>Package strings\<close>

text \<open>
  Strings are byte lists. \<^verbatim>\<open>strings.TrimSpace\<close> is modelled for the ASCII white space
  characters (space, tab, line feed, vertical tab, form feed, carriage return).
  \<^verbatim>\<open>strings.Split\<close> is only ever called with a one-character separator, which the
  model takes as a character.
\<close>

definition isSpace :: "char \<Rightarrow> bool" where
  "isSpace c = (c \<in> set [CHR '' '', CHR 0x09, CHR 0x0A, CHR 0x0B, CHR 0x0C, CHR 0x0D])"

definition TrimSpace :: "string \<Rightarrow> string" where
  "TrimSpace s = rev (dropWhile isSpace (rev (dropWhile isSpace s)))"

definition HasPrefix :: "string \<Rightarrow> string \<Rightarrow> bool" where
  "HasPrefix s pre = (take (length pre) s = pre)"

definition HasSuffix :: "string \<Rightarrow> string \<Rightarrow> bool" where
  "HasSuffix s suf = (length suf \<le> length s \<and> drop (length s - length suf) s = suf)"

definition TrimPrefix :: "string \<Rightarrow> string \<Rightarrow> string" where
  "TrimPrefix s pre = (if HasPrefix s pre then drop (length pre) s else s)"

definition TrimSuffix :: "string \<Rightarrow> string \<Rightarrow> string" where
  "TrimSuffix s suf = (if HasSuffix s suf then take (length s - length suf) s else s)"

fun Contains :: "string \<Rightarrow> string \<Rightarrow> bool" where
  "Contains [] sub = (sub = [])"
| "Contains (c # s) sub = (HasPrefix (c # s) sub \<or> Contains s sub)"

fun Split :: "string \<Rightarrow> char \<Rightarrow> string list" where
  "Split [] sep = [[]]"
| "Split (c # s) sep =
    (if c = sep then [] # Split s sep
     else (case Split s sep of [] \<Rightarrow> [[c]] | p # ps \<Rightarrow> (c # p) # ps))"

subsection \<open>Package strconv\<close>

text \<open>
  \<^verbatim>\<open>strconv.Atoi\<close> returns a value and an error; the model returns the value and
  whether the error is \<^verbatim>\<open>nil\<close>. A syntax error gives the value 0, a range error the
  nearest bound of the 64-bit \<^verbatim>\<open>int\<close>.

  \<^verbatim>\<open>strconv.ParseFloat\<close> is modelled for decimal literals (sign, digits, an optional
  point, an optional decimal exponent); every caller drops its error, and a string with
  a syntax error gives 0. Hexadecimal literals, digit separators and the words for
  infinities and NaN are not modelled (they also give 0 here), nor are rounding and
  overflow to an infinity.
\<close>

definition is_digit :: "char \<Rightarrow> bool" where
  "is_digit c = (c \<in> set ''0123456789'')"

definition digit_val :: "char \<Rightarrow> nat" where
  "digit_val c = of_char c - 48"

definition digits_val :: "string \<Rightarrow> nat" where
  "digits_val s = foldl (\<lambda>a c. 10 * a + digit_val c) 0 s"

definition MaxInt :: int where
  "MaxInt = 2 ^ 63 - 1"

definition MinInt :: int where
  "MinInt = - (2 ^ 63)"

definition Atoi :: "string \<Rightarrow> int \<times> bool" where
  "Atoi s =
    (let neg = (s \<noteq> [] \<and> hd s = CHR ''-'');
         ds = (if s \<noteq> [] \<and> (hd s = CHR ''-'' \<or> hd s = CHR ''+'') then tl s else s)
     in if ds = [] \<or> \<not> list_all is_digit ds then (0, False)
        else (let v = (if neg then - int (digits_val ds) else int (digits_val ds))
              in if v > MaxInt then (MaxInt, False)
                 else if v < MinInt then (MinInt, False)
                 else (v, True)))"

text \<open>The exponent part of a decimal literal: empty, or \<open>e\<close>/\<open>E\<close>, a sign, digits.\<close>

definition parse_exponent :: "string \<Rightarrow> int option" where
  "parse_exponent s =
    (case s of
      [] \<Rightarrow> Some 0
    | c # r \<Rightarrow>
        if c = CHR ''e'' \<or> c = CHR ''E'' then
          (let neg = (r \<noteq> [] \<and> hd r = CHR ''-'');
               ds = (if r \<noteq> [] \<and> (hd r = CHR ''-'' \<or> hd r = CHR ''+'') then tl r else r)
           in if ds = [] \<or> \<not> list_all is_digit ds then None
              else Some (if neg then - int (digits_val ds) else int (digits_val ds)))
        else None)"

definition parse_unsigned :: "string \<Rightarrow> real option" where
  "parse_unsigned s =
    (let ip = takeWhile is_digit s; r1 = dropWhile is_digit s;
         has_point = (r1 \<noteq> [] \<and> hd r1 = CHR ''.'');
         r2 = (if has_point then tl r1 else r1);
         fp = (if has_point then takeWhile is_digit r2 else []);
         r3 = (if has_point then dropWhile is_digit r2 else r2)
     in if ip = [] \<and> fp = [] then None
        else (case parse_exponent r3 of
               None \<Rightarrow> None
             | Some e \<Rightarrow>
                 Some (real (digits_val (ip @ fp)) / 10 ^ length fp * 10 powi e)))"

definition ParseFloat :: "string \<Rightarrow> real" where
  "ParseFloat s =
    (let neg = (s \<noteq> [] \<and> hd s = CHR ''-'');
         u = (if s \<noteq> [] \<and> (hd s = CHR ''-'' \<or> hd s = CHR ''+'') then tl s else s)
     in (case parse_unsigned u of
          None \<Rightarrow> 0
        | Some v \<Rightarrow> if neg then - v else v))"

subsection \<open>Package regexp\<close>

text \<open>
  The three patterns of \<^verbatim>\<open>ParseGerber\<close> are sequences of literal characters,
  one-character groups, greedy groups \<open>(class+)\<close>, an optional character and an optional
  greedy group. The matcher is a backtracking one, trying the longer repetition first
  and the present option first, which is the match Go's \<^verbatim>\<open>regexp\<close> reports
  (leftmost, then first in backtracking order). A match is the list of its groups, without
  the whole match that Go puts at index 0, and the text left after it; a group that took
  no part in the match is the empty string.
\<close>

datatype item =
    Lit char
  | Cap1 "char \<Rightarrow> bool"
  | CapPlus "char \<Rightarrow> bool"
  | OptLit char
  | OptCapPlus "char \<Rightarrow> bool"

primrec greedy :: "(string \<Rightarrow> (string list \<times> string) option) \<Rightarrow> string \<Rightarrow> nat \<Rightarrow> (string list \<times> string) option" where
  "greedy k s 0 = None"
| "greedy k s (Suc n) =
    (case k (drop (Suc n) s) of
      Some (caps, rest) \<Rightarrow> Some (take (Suc n) s # caps, rest)
    | None \<Rightarrow> greedy k s n)"

primrec match_here :: "item list \<Rightarrow> string \<Rightarrow> (string list \<times> string) option" where
  "match_here [] s = Some ([], s)"
| "match_here (i # r) s =
    (case i of
      Lit c \<Rightarrow>
        (case s of [] \<Rightarrow> None | x # xs \<Rightarrow> if x = c then match_here r xs else None)
    | Cap1 p \<Rightarrow>
        (case s of
          [] \<Rightarrow> None
        | x # xs \<Rightarrow>
            if p x then
              (case match_here r xs of
                Some (caps, rest) \<Rightarrow> Some ([x] # caps, rest)
              | None \<Rightarrow> None)
            else None)
    | CapPlus p \<Rightarrow> greedy (match_here r) s (length (takeWhile p s))
    | OptLit c \<Rightarrow>
        (case (case s of [] \<Rightarrow> None | x # xs \<Rightarrow> if x = c then match_here r xs else None) of
          Some m \<Rightarrow> Some m
        | None \<Rightarrow> match_here r s)
    | OptCapPlus p \<Rightarrow>
        (case greedy (match_here r) s (length (takeWhile p s)) of
          Some m \<Rightarrow> Some m
        | None \<Rightarrow>
            (case match_here r s of
              Some (caps, rest) \<Rightarrow> Some ([] # caps, rest)
            | None \<Rightarrow> None)))"

fun FindStringSubmatch :: "item list \<Rightarrow> string \<Rightarrow> (string list \<times> string) option" where
  "FindStringSubmatch re [] = match_here re []"
| "FindStringSubmatch re (c # s) =
    (case match_here re (c # s) of
      Some m \<Rightarrow> Some m
    | None \<Rightarrow> FindStringSubmatch re s)"

text \<open>
  All matches, each search starting where the previous match ended. The test on the
  lengths only stops the search after an empty match at the same place, which the
  patterns here cannot produce.
\<close>

function FindAllStringSubmatch :: "item list \<Rightarrow> string \<Rightarrow> string list list" where
  "FindAllStringSubmatch re s =
    (case FindStringSubmatch re s of
      None \<Rightarrow> []
    | Some (caps, rest) \<Rightarrow>
        caps # (if length rest < length s then FindAllStringSubmatch re rest else []))"
  by pat_completeness auto
termination
  by (relation "measure (\<lambda>(re, s). length s)") auto

declare FindAllStringSubmatch.simps [simp del]

definition reCoord :: "item list" where
  "reCoord = [Cap1 (\<lambda>c. c \<in> set ''XYD''),
              CapPlus (\<lambda>c. is_digit c \<or> c = CHR ''.'' \<or> c = CHR ''-'')]"

definition reAD :: "item list" where
  "reAD = map Lit ''%ADD'' @
          [CapPlus is_digit,
           CapPlus (\<lambda>c. c \<in> set ''ABCDEFGHIJKLMNOPQRSTUVWXYZabcdefghijklmnopqrstuvwxyz0123456789_''),
           OptLit CHR '','',
           OptCapPlus (\<lambda>c. is_digit c \<or> c = CHR ''.'' \<or> c = CHR ''X'')] @
          map Lit ''*%''"

definition reFS :: "item list" where
  "reFS = map Lit ''%FSLAX'' @ [Cap1 is_digit, Cap1 is_digit] @
          [Lit CHR ''Y''] @ [Cap1 is_digit, Cap1 is_digit] @ map Lit ''*%''"

section \<open>gerber.go: data model\<close>

record Aperture =
  ap_Type :: string
  ap_Modifiers :: "real list"

record MacroPrimitive =
  prim_Code :: int
  prim_Modifiers :: "real list"

record Macro =
  macro_Name :: string
  macro_Primitives :: "MacroPrimitive list"

record FormatSpec =
  Integer :: int
  Decimal :: int

record GerberState =
  Apertures :: "int \<rightharpoonup> Aperture"
  Macros :: "string \<rightharpoonup> Macro"
  CurrentAperture :: int
  st_X :: real
  st_Y :: real
  FormatX :: FormatSpec
  FormatY :: FormatSpec
  Units :: string

text \<open>The pointer fields of a command are options: \<^verbatim>\<open>nil\<close> is \<^const>\<open>None\<close>.\<close>

record GerberCommand =
  cmd_Type :: string
  cmd_X :: "real option"
  cmd_Y :: "real option"
  cmd_D :: "int option"

record GerberFile =
  Commands :: "GerberCommand list"
  State :: GerberState

definition NewGerberFile :: GerberFile where
  "NewGerberFile =
    \<lparr>Commands = [],
     State = \<lparr>Apertures = Map.empty, Macros = Map.empty, CurrentAperture = 0,
              st_X = 0, st_Y = 0,
              FormatX = \<lparr>Integer = 0, Decimal = 0\<rparr>,
              FormatY = \<lparr>Integer = 0, Decimal = 0\<rparr>,
              Units = ''MM''\<rparr>\<rparr>"

section \<open>gerber.go: the command interpreter\<close>

definition parseCoordinate :: "string \<Rightarrow> FormatSpec \<Rightarrow> real" where
  "parseCoordinate valStr fmtSpec =
    (if Contains valStr ''.'' then
       (let val = ParseFloat valStr in val)
     else
       (let val = ParseFloat valStr;
            divisor = 10 powr real_of_int (Decimal fmtSpec)
        in val / divisor))"

text \<open>
  The body of the loop over the matches of \<open>reCoord\<close> in one statement: \<open>m\<close> holds the
  two groups of a match, the axis or operation letter and its value.
\<close>

definition apply_field :: "GerberState \<Rightarrow> GerberCommand \<Rightarrow> string list \<Rightarrow> GerberCommand" where
  "apply_field st cmd m =
    (let valStr = m ! 1 in
      if m ! 0 = ''X'' then
        (let v = parseCoordinate valStr (FormatX st) in cmd\<lparr>cmd_X := Some v\<rparr>)
      else if m ! 0 = ''Y'' then
        (let v = parseCoordinate valStr (FormatY st) in cmd\<lparr>cmd_Y := Some v\<rparr>)
      else if m ! 0 = ''D'' then
        (let val = ParseFloat valStr;
             d = to_int val;
             cmd = cmd\<lparr>cmd_D := Some d\<rparr>
         in if d = 1 then cmd\<lparr>cmd_Type := ''DRAW''\<rparr>
            else if d = 2 then cmd\<lparr>cmd_Type := ''MOVE''\<rparr>
            else if d = 3 then cmd\<lparr>cmd_Type := ''FLASH''\<rparr>
            else cmd)
      else cmd)"

text \<open>One statement of a line split at \<open>*\<close>: the body of the loop over \<open>parts\<close>.\<close>

definition parse_part :: "GerberState \<Rightarrow> GerberCommand list \<Rightarrow> string \<Rightarrow> GerberCommand list" where
  "parse_part st cmds part0 =
    (let part = TrimSpace part0 in
      if part = [] then cmds
      else if HasPrefix part ''D'' \<and> length part \<ge> 2
              \<and> snd (Atoi (drop 1 part)) \<and> fst (Atoi (drop 1 part)) \<ge> 10 then
        cmds @ [\<lparr>cmd_Type = ''APERTURE'', cmd_X = None, cmd_Y = None,
                  cmd_D = Some (fst (Atoi (drop 1 part)))\<rparr>]
      else
        (let matches = FindAllStringSubmatch reCoord part in
          if length matches > 0 then
            cmds @ [foldl (apply_field st)
                      \<lparr>cmd_Type = ''MOVE'', cmd_X = None, cmd_Y = None, cmd_D = None\<rparr>
                      matches]
          else cmds))"

text \<open>The directives: format specification, aperture definition, units.\<close>

definition directive_FS :: "string \<Rightarrow> GerberState \<Rightarrow> GerberState" where
  "directive_FS line st =
    (case FindStringSubmatch reFS line of
      None \<Rightarrow> st
    | Some (matches, rest) \<Rightarrow>
        st\<lparr>FormatX := \<lparr>Integer = fst (Atoi (matches ! 0)), Decimal = fst (Atoi (matches ! 1))\<rparr>,
           FormatY := \<lparr>Integer = fst (Atoi (matches ! 2)), Decimal = fst (Atoi (matches ! 3))\<rparr>\<rparr>)"

definition directive_AD :: "string \<Rightarrow> GerberState \<Rightarrow> GerberState" where
  "directive_AD line st =
    (case FindStringSubmatch reAD line of
      None \<Rightarrow> st
    | Some (matches, rest) \<Rightarrow>
        (let dCode = fst (Atoi (matches ! 0));
             apType = matches ! 1;
             mods = (if matches ! 2 \<noteq> [] then map ParseFloat (Split (matches ! 2) CHR ''X'')
                     else [])
         in st\<lparr>Apertures := (Apertures st)(dCode \<mapsto> \<lparr>ap_Type = apType, ap_Modifiers = mods\<rparr>)\<rparr>))"

definition directive_MO :: "string \<Rightarrow> GerberState \<Rightarrow> GerberState" where
  "directive_MO line st =
    (if Contains line ''IN'' then st\<lparr>Units := ''IN''\<rparr> else st\<lparr>Units := ''MM''\<rparr>)"

text \<open>
  The inner loop of the macro directive: it consumes lines up to and including the first
  line that is \<open>%\<close> alone, or all the lines left, and gives the primitives read and the
  lines still to scan.
\<close>

fun parse_macro_body :: "string list \<Rightarrow> MacroPrimitive list \<Rightarrow> MacroPrimitive list \<times> string list" where
  "parse_macro_body [] primitives = (primitives, [])"
| "parse_macro_body (l # ls) primitives =
    (let mLine = TrimSpace l in
      if mLine = ''%'' then (primitives, ls)
      else
        (let mLine = TrimSuffix mLine ''*'';
             parts = Split mLine CHR '','';
             code = fst (Atoi (hd parts));
             mods = map ParseFloat (tl parts)
         in parse_macro_body ls (primitives @ [\<lparr>prim_Code = code, prim_Modifiers = mods\<rparr>])))"

lemma parse_macro_body_length:
  "length (snd (parse_macro_body ls primitives)) \<le> length ls"
  by (induction ls primitives rule: parse_macro_body.induct) (auto simp add: Let_def le_SucI)

text \<open>The loop over the scanner's lines.\<close>

function parse_lines :: "string list \<Rightarrow> GerberFile \<Rightarrow> GerberFile" where
  "parse_lines [] gf = gf"
| "parse_lines (l # ls) gf =
    (let line = TrimSpace l in
      if line = [] then parse_lines ls gf
      else if HasPrefix line ''%'' then
        (if HasPrefix line ''%FS'' then
           parse_lines ls (gf\<lparr>State := directive_FS line (State gf)\<rparr>)
         else if HasPrefix line ''%AD'' then
           parse_lines ls (gf\<lparr>State := directive_AD line (State gf)\<rparr>)
         else if HasPrefix line ''%AM'' then
           (let name = TrimSuffix (TrimPrefix line ''%AM'') ''*'';
                body = parse_macro_body ls [];
                macro = \<lparr>macro_Name = name, macro_Primitives = fst body\<rparr>
            in parse_lines (snd body)
                 (gf\<lparr>State := (State gf)\<lparr>Macros := (Macros (State gf))(name \<mapsto> macro)\<rparr>\<rparr>))
         else if HasPrefix line ''%MO'' then
           parse_lines ls (gf\<lparr>State := directive_MO line (State gf)\<rparr>)
         else parse_lines ls gf)
      else
        parse_lines ls
          (gf\<lparr>Commands := fold (\<lambda>part cmds. parse_part (State gf) cmds part)
                               (Split line CHR ''*'') (Commands gf)\<rparr>))"
  by pat_completeness auto
termination
  by (relation "measure (\<lambda>(ls, gf). length ls)")
     (auto simp add: parse_macro_body_length le_imp_less_Suc)

text \<open>
  \<^verbatim>\<open>ParseGerber\<close> opens the file and scans it line by line. Its input is modelled by
  what the file system gives it: the error of \<^verbatim>\<open>os.Open\<close>, or, for a file that opens,
  the lines the scanner delivers before \<^verbatim>\<open>Scan\<close> returns false, with the error the
  scanner then holds (none at the end of the file, one after a failed read or an
  over-long line). The code never calls \<^verbatim>\<open>scanner.Err\<close>, so the second component is
  not used.
\<close>

type_synonym os_error = string

type_synonym opened_file = "string list \<times> os_error option"

definition ParseGerber :: "os_error + opened_file \<Rightarrow> os_error + GerberFile" where
  "ParseGerber file =
    (case file of
      Inl err \<Rightarrow> Inl err
    | Inr (lines, scan_err) \<Rightarrow> Inr (parse_lines lines NewGerberFile))"

section \<open>gerber.go: drawing bounds\<close>

record Bounds =
  MinX :: real
  MinY :: real
  MaxX :: real
  MaxY :: real




section \<open>gerber.go: the raster image\<close>

text \<open>
  An \<^verbatim>\<open>image.Rectangle\<close> holds the pixels with \<open>Min \<le> p < Max\<close>; \<^verbatim>\<open>image.Rect\<close> orders
  the corners it is given. Every pixel of the rendered \<^verbatim>\<open>image.RGBA\<close> is black or white,
  so an image is its rectangle and the set of its white pixels. \<^verbatim>\<open>Set\<close> ignores a point
  outside the rectangle and \<^verbatim>\<open>draw.Draw\<close> clips to it. The colour argument of the
  drawing functions is always the white uniform image and is left out; the one black
  fill is \<open>Draw\<close> with \<open>False\<close>.
\<close>

record Rectangle =
  Min_X :: int
  Min_Y :: int
  Max_X :: int
  Max_Y :: int

definition Rect :: "int \<Rightarrow> int \<Rightarrow> int \<Rightarrow> int \<Rightarrow> Rectangle" where
  "Rect x0 y0 x1 y1 =
    \<lparr>Min_X = (if x0 > x1 then x1 else x0), Min_Y = (if y0 > y1 then y1 else y0),
     Max_X = (if x0 > x1 then x0 else x1), Max_Y = (if y0 > y1 then y0 else y1)\<rparr>"



definition rect_In :: "int \<times> int \<Rightarrow> Rectangle \<Rightarrow> bool" where
  "rect_In p r = (Min_X r \<le> fst p \<and> fst p < Max_X r \<and> Min_Y r \<le> snd p \<and> snd p < Max_Y r)"

definition rect_points :: "Rectangle \<Rightarrow> (int \<times> int) set" where
  "rect_points r = set [Min_X r..Max_X r - 1] \<times> set [Min_Y r..Max_Y r - 1]"

definition Intersect :: "Rectangle \<Rightarrow> Rectangle \<Rightarrow> Rectangle" where
  "Intersect r s =
    (let r = (if Min_X r < Min_X s then r\<lparr>Min_X := Min_X s\<rparr> else r);
         r = (if Min_Y r < Min_Y s then r\<lparr>Min_Y := Min_Y s\<rparr> else r);
         r = (if Max_X r > Max_X s then r\<lparr>Max_X := Max_X s\<rparr> else r);
         r = (if Max_Y r > Max_Y s then r\<lparr>Max_Y := Max_Y s\<rparr> else r)
     in if Min_X r \<ge> Max_X r \<or> Min_Y r \<ge> Max_Y r
        then \<lparr>Min_X = 0, Min_Y = 0, Max_X = 0, Max_Y = 0\<rparr> else r)"

record RGBA =
  img_Rect :: Rectangle
  img_White :: "(int \<times> int) set"

definition Set_white :: "RGBA \<Rightarrow> int \<Rightarrow> int \<Rightarrow> RGBA" where
  "Set_white img x y =
    (if rect_In (x, y) (img_Rect img) then img\<lparr>img_White := insert (x, y) (img_White img)\<rparr>
     else img)"

definition Draw :: "RGBA \<Rightarrow> Rectangle \<Rightarrow> bool \<Rightarrow> RGBA" where
  "Draw img r white =
    (let r = Intersect r (img_Rect img) in
      if white then img\<lparr>img_White := img_White img \<union> rect_points r\<rparr>
      else img\<lparr>img_White := img_White img - rect_points r\<rparr>)"

text \<open>
  \<^verbatim>\<open>image.NewRGBA\<close> panics when the length of the pixel buffer, four bytes a pixel, does
  not fit an \<^verbatim>\<open>int\<close>. (The allocation itself can also fail for lack of memory, which
  ends the process; that is outside the model.) A \<^verbatim>\<open>nil\<close> pointer dereference is the
  other panic of the renderer.
\<close>

datatype panic = HugeImage | NilPointer


text \<open>What the mesher reads from a rendered image: opaque white, opaque black, and
  transparent black outside the rectangle.\<close>

definition RGBA_Image :: "RGBA \<Rightarrow> Image" where
  "RGBA_Image img =
    \<lparr>img_Max_X = Max_X (img_Rect img), img_Max_Y = Max_Y (img_Rect img),
     img_At = (\<lambda>x y. if (x, y) \<in> img_White img then (65535, 65535, 65535, 65535)
                       else if rect_In (x, y) (img_Rect img) then (0, 0, 0, 65535)
                       else (0, 0, 0, 0))\<rparr>"

section \<open>gerber.go: stamping apertures\<close>

definition ApertureCircle :: string where
  "ApertureCircle = ''C''"

definition ApertureRect :: string where
  "ApertureRect = ''R''"

definition ApertureObround :: string where
  "ApertureObround = ''O''"

definition drawCircle :: "RGBA \<Rightarrow> int \<Rightarrow> int \<Rightarrow> int \<Rightarrow> RGBA" where
  "drawCircle img x0 y0 r =
    fold (\<lambda>y img.
           fold (\<lambda>x img. if x * x + y * y \<le> r * r then Set_white img (x0 + x) (y0 + y) else img)
             [- r..r] img)
      [- r..r] img"

text \<open>\<^verbatim>\<open>math.Mod\<close>: the remainder of the truncated division, with the sign of \<open>x\<close>.\<close>

definition math_Mod :: "real \<Rightarrow> real \<Rightarrow> real" where
  "math_Mod x y = x - y * real_of_int (to_int (x / y))"

text \<open>The body of the loop over the primitives of a macro.\<close>

definition drawPrimitive :: "int \<Rightarrow> int \<Rightarrow> real \<Rightarrow> MacroPrimitive \<Rightarrow> RGBA \<Rightarrow> RGBA" where
  "drawPrimitive x y scale prim img =
    (if prim_Code prim = 1 then
       (if length (prim_Modifiers prim) \<ge> 4 then
          (let dia = prim_Modifiers prim ! 1;
               cx = prim_Modifiers prim ! 2;
               cy = prim_Modifiers prim ! 3;
               px = to_int (cx * scale);
               py = to_int (cy * scale);
               radius = to_int ((dia * scale) / 2)
           in drawCircle img (x + px) (y - py) radius)
        else img)
     else if prim_Code prim = 21 then
       (if length (prim_Modifiers prim) \<ge> 6 then
          (let width = prim_Modifiers prim ! 1;
               height = prim_Modifiers prim ! 2;
               cx = prim_Modifiers prim ! 3;
               cy = prim_Modifiers prim ! 4;
               rot = prim_Modifiers prim ! 5;
               rot = math_Mod rot 360;
               rot = (if rot < 0 then rot + 360 else rot);
               swap = (\<bar>rot - 90\<bar> < 1 \<or> \<bar>rot - 270\<bar> < 1);
               width' = (if swap then height else width);
               height' = (if swap then width else height);
               w = to_int (width' * scale);
               h = to_int (height' * scale);
               icx = to_int (cx * scale);
               icy = to_int (cy * scale);
               rx = x + icx;
               ry = y - icy;
               r = Rect (rx - w sdiv 2) (ry - h sdiv 2) (rx + w sdiv 2) (ry + h sdiv 2)
           in Draw img r True)
        else img)
     else img)"

definition drawAperture :: "GerberState \<Rightarrow> RGBA \<Rightarrow> int \<Rightarrow> int \<Rightarrow> Aperture \<Rightarrow> real \<Rightarrow> RGBA" where
  "drawAperture st img x y ap scale =
    (if ap_Type ap = ApertureCircle then
       (if length (ap_Modifiers ap) > 0 then
          (let radius = to_int ((ap_Modifiers ap ! 0 * scale) / 2)
           in drawCircle img x y radius)
        else img)
     else if ap_Type ap = ApertureRect then
       (if length (ap_Modifiers ap) \<ge> 2 then
          (let w = to_int (ap_Modifiers ap ! 0 * scale);
               h = to_int (ap_Modifiers ap ! 1 * scale);
               r = Rect (x - w sdiv 2) (y - h sdiv 2) (x + w sdiv 2) (y + h sdiv 2)
           in Draw img r True)
        else img)
     else if ap_Type ap = ApertureObround then
       (if length (ap_Modifiers ap) \<ge> 2 then
          (let w = to_int (ap_Modifiers ap ! 0 * scale);
               h = to_int (ap_Modifiers ap ! 1 * scale);
               r = Rect (x - w sdiv 2) (y - h sdiv 2) (x + w sdiv 2) (y + h sdiv 2)
           in Draw img r True)
        else img)
     else
       (case Macros st (ap_Type ap) of
         None \<Rightarrow> img
       | Some macro \<Rightarrow> fold (drawPrimitive x y scale) (macro_Primitives macro) img))"

definition drawLine :: "GerberState \<Rightarrow> RGBA \<Rightarrow> int \<Rightarrow> int \<Rightarrow> int \<Rightarrow> int \<Rightarrow> Aperture \<Rightarrow> real \<Rightarrow> RGBA" where
  "drawLine st img x1 y1 x2 y2 ap scale =
    (let dx = real_of_int (x2 - x1);
         dy = real_of_int (y2 - y1);
         dist = sqrt (dx * dx + dy * dy);
         steps = to_int dist
     in if steps = 0 then drawAperture st img x1 y1 ap scale
        else
          fold (\<lambda>i img.
                 (let t = real_of_int i / real_of_int steps;
                      x = to_int (real_of_int x1 + t * dx);
                      y = to_int (real_of_int y1 + t * dy)
                  in drawAperture st img x y ap scale))
            [0..steps] img)"

section \<open>gerber.go: rendering\<close>

definition toPix :: "Bounds \<Rightarrow> real \<Rightarrow> real \<Rightarrow> real \<Rightarrow> real \<Rightarrow> int \<times> int" where
  "toPix b heightMM scale x y =
    (let px = to_int ((x - MinX b) * scale);
         py = to_int ((heightMM - (y - MinY b)) * scale)
     in (px, py))"

text \<open>
  The body of the loop over the commands. The state is the image, the pen position and
  the selected aperture code. Dereferencing the \<^verbatim>\<open>nil\<close> \<open>D\<close> of a select command
  panics (the interpreter never builds such a command).
\<close>

type_synonym render_state = "RGBA \<times> real \<times> real \<times> int"

definition render_cmd :: "GerberState \<Rightarrow> Bounds \<Rightarrow> real \<Rightarrow> real \<Rightarrow> render_state \<Rightarrow> GerberCommand \<Rightarrow> panic + render_state" where
  "render_cmd st b heightMM scale s cmd =
    (case s of (img, curX, curY, curDCode) \<Rightarrow>
      if cmd_Type cmd = ''APERTURE'' then
        (case cmd_D cmd of
          None \<Rightarrow> Inl NilPointer
        | Some d \<Rightarrow> Inr (img, curX, curY, d))
      else
        (let prevX = curX; prevY = curY;
             curX = (case cmd_X cmd of Some v \<Rightarrow> v | None \<Rightarrow> curX);
             curY = (case cmd_Y cmd of Some v \<Rightarrow> v | None \<Rightarrow> curY)
         in if cmd_Type cmd = ''FLASH'' then
              (case Apertures st curDCode of
                Some ap \<Rightarrow>
                  (case toPix b heightMM scale curX curY of
                    (cx, cy) \<Rightarrow> Inr (drawAperture st img cx cy ap scale, curX, curY, curDCode))
              | None \<Rightarrow> Inr (img, curX, curY, curDCode))
            else if cmd_Type cmd = ''DRAW'' then
              (case Apertures st curDCode of
                Some ap \<Rightarrow>
                  (case (toPix b heightMM scale prevX prevY, toPix b heightMM scale curX curY) of
                    ((x1, y1), (x2, y2)) \<Rightarrow>
                      Inr (drawLine st img x1 y1 x2 y2 ap scale, curX, curY, curDCode))
              | None \<Rightarrow> Inr (img, curX, curY, curDCode))
            else Inr (img, curX, curY, curDCode)))"

fun render_cmds :: "GerberState \<Rightarrow> Bounds \<Rightarrow> real \<Rightarrow> real \<Rightarrow> render_state \<Rightarrow> GerberCommand list \<Rightarrow> panic + render_state" where
  "render_cmds st b heightMM scale s [] = Inr s"
| "render_cmds st b heightMM scale s (cmd # cmds) =
    (case render_cmd st b heightMM scale s cmd of
      Inl p \<Rightarrow> Inl p
    | Inr s' \<Rightarrow> render_cmds st b heightMM scale s' cmds)"


section \<open>Coordinate parsing\<close>

lemma Contains_single: "Contains s [c] \<longleftrightarrow> c \<in> set s"
  by (induction s) (auto simp add: HasPrefix_def)

lemma is_digit_not_point: "is_digit c \<Longrightarrow> c \<noteq> CHR ''.'' \<and> c \<noteq> CHR ''-'' \<and> c \<noteq> CHR ''+''"
  by (auto simp add: is_digit_def)

lemma foldl_digits:
  "foldl (\<lambda>a c. 10 * a + digit_val c) a ys
     = a * 10 ^ length ys + foldl (\<lambda>a c. 10 * a + digit_val c) 0 ys"
proof (induction ys arbitrary: a)
  case Nil
  show ?case by simp
next
  case (Cons y ys)
  define f where "f = (\<lambda>a c. 10 * a + digit_val c)"
  have 1: "foldl f (10 * a + digit_val y) ys = (10 * a + digit_val y) * 10 ^ length ys + foldl f 0 ys"
    unfolding f_def by (rule Cons.IH)
  have 2: "foldl f (digit_val y) ys = digit_val y * 10 ^ length ys + foldl f 0 ys"
    unfolding f_def by (rule Cons.IH)
  have "foldl f a (y # ys) = foldl f (10 * a + digit_val y) ys"
    by (simp add: f_def)
  moreover have "foldl f 0 (y # ys) = foldl f (digit_val y) ys"
    by (simp add: f_def)
  ultimately have "foldl f a (y # ys) = a * 10 ^ length (y # ys) + foldl f 0 (y # ys)"
    using 1 2 by (simp add: algebra_simps)
  then show ?case unfolding f_def .
qed

lemma digits_val_append:
  "digits_val (xs @ ys) = digits_val xs * 10 ^ length ys + digits_val ys"
  using foldl_digits[of "digits_val xs" ys] by (simp add: digits_val_def)

lemma takeWhile_digits: "list_all is_digit ds \<Longrightarrow> takeWhile is_digit ds = ds"
  by (simp add: list_all_iff)

lemma dropWhile_digits: "list_all is_digit ds \<Longrightarrow> dropWhile is_digit ds = []"
  by (simp add: list_all_iff)

lemma not_digit_point: "\<not> is_digit CHR ''.''"
  by (simp add: is_digit_def)

lemma takeWhile_digits_point:
  "list_all is_digit ds \<Longrightarrow> takeWhile is_digit (ds @ CHR ''.'' # r) = ds"
  by (induction ds) (simp_all add: not_digit_point)

lemma dropWhile_digits_point:
  "list_all is_digit ds \<Longrightarrow> dropWhile is_digit (ds @ CHR ''.'' # r) = CHR ''.'' # r"
  by (induction ds) (simp_all add: not_digit_point)

lemma parse_unsigned_digits:
  assumes "list_all is_digit ds" "ds \<noteq> []"
  shows "parse_unsigned ds = Some (real (digits_val ds))"
  using assms
  by (simp add: parse_unsigned_def takeWhile_digits dropWhile_digits parse_exponent_def)

lemma parse_unsigned_point:
  assumes "list_all is_digit ip" "list_all is_digit fp" "ip \<noteq> [] \<or> fp \<noteq> []"
  shows "parse_unsigned (ip @ CHR ''.'' # fp)
           = Some (real (digits_val ip) + real (digits_val fp) / 10 ^ length fp)"
  using assms
  by (auto simp add: parse_unsigned_def takeWhile_digits_point dropWhile_digits_point
        takeWhile_digits dropWhile_digits parse_exponent_def digits_val_append add_divide_distrib)


lemma ParseFloat_unsigned:
  "s \<noteq> [] \<Longrightarrow> hd s \<noteq> CHR ''-'' \<Longrightarrow> hd s \<noteq> CHR ''+'' \<Longrightarrow>
     ParseFloat s = (case parse_unsigned s of None \<Rightarrow> 0 | Some v \<Rightarrow> v)"
  unfolding ParseFloat_def Let_def by (simp split: option.splits)

lemma ParseFloat_minus:
  "ParseFloat (CHR ''-'' # s) = (case parse_unsigned s of None \<Rightarrow> 0 | Some v \<Rightarrow> - v)"
  unfolding ParseFloat_def Let_def by (simp split: option.splits)

lemma hd_digit: "list_all is_digit ds \<Longrightarrow> ds \<noteq> [] \<Longrightarrow> hd ds \<noteq> CHR ''-'' \<and> hd ds \<noteq> CHR ''+''"
  by (cases ds) (simp_all add: is_digit_not_point)


lemma ParseFloat_digits:
  assumes "list_all is_digit ds" "ds \<noteq> []"
  shows "ParseFloat ds = real (digits_val ds)"
    and "ParseFloat (CHR ''-'' # ds) = - real (digits_val ds)"
proof -
  from hd_digit[OF assms] have "hd ds \<noteq> CHR ''-''" "hd ds \<noteq> CHR ''+''" by simp_all
  from ParseFloat_unsigned[OF assms(2) this] parse_unsigned_digits[OF assms]
  show "ParseFloat ds = real (digits_val ds)" by simp
  from ParseFloat_minus[of ds] parse_unsigned_digits[OF assms]
  show "ParseFloat (CHR ''-'' # ds) = - real (digits_val ds)" by simp
qed

lemma hd_digits_point:
  "list_all is_digit ip \<Longrightarrow> hd (ip @ CHR ''.'' # fp) \<noteq> CHR ''-'' \<and> hd (ip @ CHR ''.'' # fp) \<noteq> CHR ''+''"
  by (cases ip) (simp_all add: is_digit_not_point)

lemma ParseFloat_point:
  assumes "list_all is_digit ip" "list_all is_digit fp" "ip \<noteq> [] \<or> fp \<noteq> []"
  shows "ParseFloat (ip @ CHR ''.'' # fp) = real (digits_val ip) + real (digits_val fp) / 10 ^ length fp"
    and "ParseFloat (CHR ''-'' # ip @ CHR ''.'' # fp) = - (real (digits_val ip) + real (digits_val fp) / 10 ^ length fp)"
proof -
  have ne: "ip @ CHR ''.'' # fp \<noteq> []" by simp
  from hd_digits_point[OF assms(1), of fp]
  have "hd (ip @ CHR ''.'' # fp) \<noteq> CHR ''-''" "hd (ip @ CHR ''.'' # fp) \<noteq> CHR ''+''" by simp_all
  from ParseFloat_unsigned[OF ne this] parse_unsigned_point[OF assms]
  show "ParseFloat (ip @ CHR ''.'' # fp) = real (digits_val ip) + real (digits_val fp) / 10 ^ length fp"
    by simp
  from ParseFloat_minus[of "ip @ CHR ''.'' # fp"] parse_unsigned_point[OF assms]
  show "ParseFloat (CHR ''-'' # ip @ CHR ''.'' # fp) = - (real (digits_val ip) + real (digits_val fp) / 10 ^ length fp)"
    by simp
qed

lemma digits_no_point: "list_all is_digit ds \<Longrightarrow> CHR ''.'' \<notin> set ds"
  using is_digit_not_point by (auto simp add: list_all_iff)


text \<open>
  Claim C1. \<open>parseCoordinate\<close> returns the literal value of a string that contains a decimal
  point, whatever the format, and the value of a string without one divided by ten to
  the number of decimal digits of the format. For a literal made of an integer part, a
  point and a fraction part the value is the number the digits spell; for a digit string
  without a point it is the integer over the power of ten; a leading minus sign negates
  both. In particular \<open>1234\<close> under the format with 2 integer and 4 decimal digits is
  0.1234.
\<close>

theorem parseCoordinate_scaling:
  "(CHR ''.'' \<in> set valStr \<longrightarrow> parseCoordinate valStr fmtSpec = ParseFloat valStr)
   \<and> (CHR ''.'' \<notin> set valStr \<longrightarrow>
        parseCoordinate valStr fmtSpec = ParseFloat valStr / 10 powi Decimal fmtSpec)
   \<and> (list_all is_digit ip \<and> list_all is_digit fp \<and> (ip \<noteq> [] \<or> fp \<noteq> []) \<longrightarrow>
        parseCoordinate (ip @ ''.'' @ fp) fmtSpec
          = real (digits_val ip) + real (digits_val fp) / 10 ^ length fp
        \<and> parseCoordinate (''-'' @ ip @ ''.'' @ fp) fmtSpec
          = - (real (digits_val ip) + real (digits_val fp) / 10 ^ length fp))
   \<and> (list_all is_digit ds \<and> ds \<noteq> [] \<longrightarrow>
        parseCoordinate ds fmtSpec = real (digits_val ds) / 10 powi Decimal fmtSpec
        \<and> parseCoordinate (''-'' @ ds) fmtSpec = - real (digits_val ds) / 10 powi Decimal fmtSpec)
   \<and> parseCoordinate ''1234'' \<lparr>Integer = 2, Decimal = 4\<rparr> = 0.1234"
proof -
  have pw: "(10::real) powr real_of_int n = 10 powi n" for n
    by (simp add: powr_real_of_int')
  have a: "CHR ''.'' \<in> set valStr \<longrightarrow> parseCoordinate valStr fmtSpec = ParseFloat valStr"
    by (simp add: parseCoordinate_def Contains_single)
  have b: "CHR ''.'' \<notin> set v \<longrightarrow>
        parseCoordinate v fmtSpec = ParseFloat v / 10 powi Decimal fmtSpec" for v
    by (simp add: parseCoordinate_def Contains_single pw)
  have c: "list_all is_digit ip \<and> list_all is_digit fp \<and> (ip \<noteq> [] \<or> fp \<noteq> []) \<longrightarrow>
        parseCoordinate (ip @ ''.'' @ fp) fmtSpec
          = real (digits_val ip) + real (digits_val fp) / 10 ^ length fp
        \<and> parseCoordinate (''-'' @ ip @ ''.'' @ fp) fmtSpec
          = - (real (digits_val ip) + real (digits_val fp) / 10 ^ length fp)"
    using ParseFloat_point[of ip fp]
    by (simp add: parseCoordinate_def Contains_single)
  have d: "list_all is_digit ds \<and> ds \<noteq> [] \<longrightarrow>
        parseCoordinate ds fmtSpec = real (digits_val ds) / 10 powi Decimal fmtSpec
        \<and> parseCoordinate (''-'' @ ds) fmtSpec = - real (digits_val ds) / 10 powi Decimal fmtSpec"
    using ParseFloat_digits[of ds] b[of ds] b[of "''-'' @ ds"] digits_no_point[of ds]
    by simp
  have e: "parseCoordinate ''1234'' \<lparr>Integer = 2, Decimal = 4\<rparr> = 0.1234"
    by (simp add: parseCoordinate_def HasPrefix_def ParseFloat_def parse_unsigned_def
          parse_exponent_def is_digit_def digits_val_def digit_val_def)
  from a b[of valStr] c d e show ?thesis by blast
qed

theorem parseCoordinate_scaling_witness:
  "parseCoordinate ''12.5'' \<lparr>Integer = 2, Decimal = 4\<rparr> = 12.5
   \<and> parseCoordinate ''-12.5'' \<lparr>Integer = 2, Decimal = 4\<rparr> = - 12.5
   \<and> parseCoordinate ''100000'' \<lparr>Integer = 2, Decimal = 4\<rparr> = 10
   \<and> parseCoordinate ''-100000'' \<lparr>Integer = 2, Decimal = 4\<rparr> = - 10"
  using parseCoordinate_scaling
    [of "''12.5''" "\<lparr>Integer = 2, Decimal = 4\<rparr>" "''12''" "''5''" "''100000''"]
  by (simp add: is_digit_def digits_val_def digit_val_def)

section \<open>Row-run merging\<close>

text \<open>
  The XY area a mesh covers, read from its triangles alone: the area of a triangle's
  projection on the XY plane is half the absolute cross product of two of its edges; the
  bottom and the top face of a box each project onto its footprint and the four side
  faces onto segments, so the footprint of a mesh of boxes is half the sum of the
  projected areas. \<open>solid_count\<close> counts the solid pixels the mesher reads, row by row.
\<close>

definition xy_area :: "triangle \<Rightarrow> real" where
  "xy_area t = (case t of (a, b, c) \<Rightarrow>
     \<bar>(pt_X b - pt_X a) * (pt_Y c - pt_Y a) - (pt_X c - pt_X a) * (pt_Y b - pt_Y a)\<bar> / 2)"

definition footprint :: "triangle list \<Rightarrow> real" where
  "footprint ts = (\<Sum>t\<leftarrow>ts. xy_area t) / 2"

definition row_count :: "Image \<Rightarrow> int \<Rightarrow> int \<Rightarrow> nat" where
  "row_count img y n = length (filter (\<lambda>x. isSolid (img_At img x y)) [0..n - 1])"

definition solid_count :: "Image \<Rightarrow> nat" where
  "solid_count img = (\<Sum>y\<leftarrow>[0..img_Max_Y img - 1]. row_count img y (img_Max_X img))"


text \<open>The invariant of the scan of a row, after the pixels before \<open>n\<close>: the boxes emitted
  and the run still open cover as many pixels as were solid.\<close>

definition scan_ok :: "Image \<Rightarrow> int \<Rightarrow> triangle list \<Rightarrow> int \<Rightarrow> int \<times> triangle list \<Rightarrow> bool" where
  "scan_ok img y ts n st = (case st of (s, ts') \<Rightarrow>
     (s = -1 \<or> (0 \<le> s \<and> s < n)) \<and>
     footprint ts' + (if s = -1 then 0 else real_of_int (n - s) * (PixelToMM * PixelToMM))
       = footprint ts + real (row_count img y n) * (PixelToMM * PixelToMM))"

lemma AddBox_append: "AddBox ts x y w h z = ts @ AddBox [] x y w h z"
  by (simp add: AddBox_def addQuad_def Let_def)

lemma footprint_append: "footprint (ts @ us) = footprint ts + footprint us"
  by (simp add: footprint_def add_divide_distrib)

lemma footprint_box: "footprint (AddBox [] x y w h z) = \<bar>w * h\<bar>"
  by (simp add: AddBox_def addQuad_def Let_def footprint_def xy_area_def abs_mult)

lemma footprint_AddBox: "footprint (AddBox ts x y w h z) = footprint ts + \<bar>w * h\<bar>"
  using AddBox_append[of ts x y w h z] footprint_append footprint_box by simp

lemma row_count_step: "0 \<le> n \<Longrightarrow> row_count img y (n + 1) = row_count img y n + (if isSolid (img_At img n y) then 1 else 0)"
  by (simp add: row_count_def upto_rec2)

lemma row_count_step': "0 \<le> n \<Longrightarrow> row_count img y (1 + n) = row_count img y n + (if isSolid (img_At img n y) then 1 else 0)"
  using row_count_step[of n img y] by (simp add: add.commute)

lemma footprint_Nil: "footprint [] = 0"
  by (simp add: footprint_def)

lemma fold_upto_snoc:
  "0 \<le> n \<Longrightarrow> fold f [0..n + 1 - 1] a = f n (fold f [0..n - 1] a)" for n :: int
  using upto_rec2[of 0 n] by simp

lemma PixelToMM_nonneg: "0 \<le> PixelToMM"
  by (simp add: PixelToMM_def DPI_def)

lemma scan_ok_step:
  assumes "0 \<le> n" and "scan_ok img y ts n st"
  shows "scan_ok img y ts (n + 1) (scan_pixel img sh y n st)"
proof -
  obtain s ts' where st: "st = (s, ts')" by (cases st)
  from assms(2) st have r: "s = -1 \<or> (0 \<le> s \<and> s < n)"
    and e: "footprint ts' + (if s = -1 then 0 else real_of_int (n - s) * (PixelToMM * PixelToMM))
       = footprint ts + real (row_count img y n) * (PixelToMM * PixelToMM)"
    by (simp_all add: scan_ok_def)
  show ?thesis
  proof (cases "isSolid (img_At img n y)")
    case True
    with r e assms(1) show ?thesis
      by (auto simp add: st scan_ok_def row_count_step row_count_step' algebra_simps)
  next
    case False
    have "\<bar>real_of_int (n - s) * PixelToMM * PixelToMM\<bar> = real_of_int (n - s) * (PixelToMM * PixelToMM)"
      if "s < n"
      using that PixelToMM_nonneg by (simp add: abs_mult)
    with False r e assms(1) show ?thesis
      by (auto simp add: st scan_ok_def row_count_step footprint_AddBox Let_def)
  qed
qed

lemma scan_inv:
  "0 \<le> n \<Longrightarrow> scan_ok img y ts n (fold (scan_pixel img sh y) [0..n - 1] (-1, ts))"
proof (induction n rule: int_ge_induct)
  case base
  show ?case by (simp add: scan_ok_def row_count_def)
next
  case (step n)
  then show ?case by (simp only: fold_upto_snoc scan_ok_step)
qed

lemma row_count_neg: "n \<le> 0 \<Longrightarrow> row_count img y n = 0"
  by (simp add: row_count_def)

lemma scan_row_footprint:
  "footprint (scan_row img sh width y ts)
     = footprint ts + real (row_count img y width) * (PixelToMM * PixelToMM)"
proof (cases "0 \<le> width")
  case True
  obtain s ts' where f: "fold (scan_pixel img sh y) [0..width - 1] (-1, ts) = (s, ts')"
    by (cases "fold (scan_pixel img sh y) [0..width - 1] (-1, ts)")
  from scan_inv[OF True, of img y ts sh] f
  have r: "s = -1 \<or> (0 \<le> s \<and> s < width)"
    and e: "footprint ts' + (if s = -1 then 0 else real_of_int (width - s) * (PixelToMM * PixelToMM))
       = footprint ts + real (row_count img y width) * (PixelToMM * PixelToMM)"
    by (simp_all add: scan_ok_def)
  have "\<bar>real_of_int (width - s) * PixelToMM * PixelToMM\<bar> = real_of_int (width - s) * (PixelToMM * PixelToMM)"
    if "s < width"
    using that PixelToMM_nonneg by (simp add: abs_mult)
  with r e show ?thesis
    by (auto simp add: scan_row_def f footprint_AddBox Let_def)
next
  case False
  then show ?thesis by (simp add: scan_row_def row_count_neg)
qed

lemma fold_scan_row_footprint:
  "footprint (fold (scan_row img sh width) ys ts)
     = footprint ts + real (\<Sum>y\<leftarrow>ys. row_count img y width) * (PixelToMM * PixelToMM)"
  by (induction ys arbitrary: ts) (simp_all add: scan_row_footprint algebra_simps)

lemma PixelToMM_pos: "0 < PixelToMM"
  by (simp add: PixelToMM_def DPI_def)

text \<open>
  Claim C2. Row-run merging is lossless: for every image, the XY area of the boxes that
  \<open>GenerateMeshFromImage\<close> emits, in pixels (the footprint in square millimetres over the
  area of a pixel), is the number of solid pixels of the image.
\<close>

theorem row_run_merging_lossless:
  "footprint (GenerateMeshFromImage img StencilHeight) / (PixelToMM * PixelToMM)
     = real (solid_count img)"
  using PixelToMM_pos
  by (simp add: GenerateMeshFromImage_def Let_def fold_scan_row_footprint solid_count_def
        footprint_Nil)

theorem row_run_merging_lossless_witness:
  "footprint (GenerateMeshFromImage
      \<lparr>img_Max_X = 3, img_Max_Y = 2,
       img_At = (\<lambda>x y. if x = 1 \<and> y = 0 then (65535, 65535, 65535, 65535) else (0, 0, 0, 65535))\<rparr>
      0.2) / (PixelToMM * PixelToMM) = 5"
  using row_run_merging_lossless
    [of "\<lparr>img_Max_X = 3, img_Max_Y = 2,
       img_At = (\<lambda>x y. if x = 1 \<and> y = 0 then (65535, 65535, 65535, 65535) else (0, 0, 0, 65535))\<rparr>"
        "0.2"]
  by (simp add: solid_count_def row_count_def isSolid_def upto.simps)

section \<open>Boxes\<close>

text \<open>
  The vertices and the directed edges of a triangle; a triangle lying in the plane where
  a coordinate has a given value; two triangles \<open>(a, b, c)\<close> and \<open>(c, d, a)\<close> making the quad
  \<open>a b c d\<close>; the box of a run, and a mesh made of whole boxes only.
\<close>

definition vertices :: "triangle \<Rightarrow> Point list" where
  "vertices t = (case t of (a, b, c) \<Rightarrow> [a, b, c])"

definition tri_edges :: "triangle \<Rightarrow> (Point \<times> Point) list" where
  "tri_edges t = (case t of (a, b, c) \<Rightarrow> [(a, b), (b, c), (c, a)])"

definition mesh_edges :: "triangle list \<Rightarrow> (Point \<times> Point) list" where
  "mesh_edges ts = concat (map tri_edges ts)"

definition on_plane :: "(Point \<Rightarrow> real) \<Rightarrow> real \<Rightarrow> triangle \<Rightarrow> bool" where
  "on_plane axis v t = (case t of (a, b, c) \<Rightarrow> axis a = v \<and> axis b = v \<and> axis c = v)"

definition is_quad :: "triangle \<Rightarrow> triangle \<Rightarrow> bool" where
  "is_quad t u = (case (t, u) of ((a, b, c), (c', d, a')) \<Rightarrow> c' = c \<and> a' = a)"

definition box_of :: "real \<Rightarrow> real \<times> real \<times> real \<Rightarrow> triangle list" where
  "box_of zHeight r = (case r of (x, y, w) \<Rightarrow> AddBox [] x y w PixelToMM zHeight)"

definition is_boxes :: "real \<Rightarrow> triangle list \<Rightarrow> bool" where
  "is_boxes zHeight ts = (\<exists>bs. ts = concat (map (box_of zHeight) bs))"

lemma length_box: "length (AddBox [] x y w h z) = 12"
  by (simp add: AddBox_def addQuad_def Let_def)

lemma box_planes:
  "(let b = AddBox [] x y w h z in
      on_plane pt_Z 0 (b ! 0) \<and> on_plane pt_Z 0 (b ! 1) \<and> is_quad (b ! 0) (b ! 1) \<and>
      on_plane pt_Z z (b ! 2) \<and> on_plane pt_Z z (b ! 3) \<and> is_quad (b ! 2) (b ! 3) \<and>
      on_plane pt_Y y (b ! 4) \<and> on_plane pt_Y y (b ! 5) \<and> is_quad (b ! 4) (b ! 5) \<and>
      on_plane pt_X (x + w) (b ! 6) \<and> on_plane pt_X (x + w) (b ! 7) \<and> is_quad (b ! 6) (b ! 7) \<and>
      on_plane pt_Y (y + h) (b ! 8) \<and> on_plane pt_Y (y + h) (b ! 9) \<and> is_quad (b ! 8) (b ! 9) \<and>
      on_plane pt_X x (b ! 10) \<and> on_plane pt_X x (b ! 11) \<and> is_quad (b ! 10) (b ! 11))"
  by (simp add: AddBox_def addQuad_def Let_def on_plane_def is_quad_def)

lemma box_closed:
  "\<forall>e \<in> set (mesh_edges (AddBox [] x y w h z)). (snd e, fst e) \<in> set (mesh_edges (AddBox [] x y w h z))"
  by (simp add: AddBox_def addQuad_def Let_def tri_edges_def mesh_edges_def)

lemma box_Z: "pt_Z ` set (concat (map vertices (AddBox [] x y w h z))) = {0, z}"
  by (auto simp add: AddBox_def addQuad_def Let_def vertices_def)

lemma is_boxes_Nil: "is_boxes z []"
  unfolding is_boxes_def by (rule exI[of _ "[]"]) simp

lemma is_boxes_AddBox:
  assumes "is_boxes z ts"
  shows "is_boxes z (AddBox ts x y w PixelToMM z)"
proof -
  from assms obtain bs where "ts = concat (map (box_of z) bs)"
    by (auto simp: is_boxes_def)
  then have "AddBox ts x y w PixelToMM z = concat (map (box_of z) (bs @ [(x, y, w)]))"
    using AddBox_append[of ts x y w PixelToMM z] by (simp add: box_of_def)
  then show ?thesis unfolding is_boxes_def by blast
qed

lemma is_boxes_scan_pixel:
  "is_boxes z (snd st) \<Longrightarrow> is_boxes z (snd (scan_pixel img z y x st))"
  by (cases st) (simp add: is_boxes_AddBox Let_def)

lemma is_boxes_fold_scan_pixel:
  "is_boxes z (snd st) \<Longrightarrow> is_boxes z (snd (fold (scan_pixel img z y) xs st))"
  by (induction xs arbitrary: st) (simp_all add: is_boxes_scan_pixel)

lemma is_boxes_scan_row:
  assumes "is_boxes z ts"
  shows "is_boxes z (scan_row img z width y ts)"
proof -
  obtain s ts' where f: "fold (scan_pixel img z y) [0..width - 1] (-1, ts) = (s, ts')"
    by (cases "fold (scan_pixel img z y) [0..width - 1] (-1, ts)")
  from is_boxes_fold_scan_pixel[of z "(-1, ts)" img y "[0..width - 1]"] assms f
  have "is_boxes z ts'" by simp
  then show ?thesis by (simp add: scan_row_def f is_boxes_AddBox Let_def)
qed

lemma is_boxes_mesh: "is_boxes z (GenerateMeshFromImage img z)"
proof -
  have "is_boxes z ts \<Longrightarrow> is_boxes z (fold (scan_row img z width) ys ts)" for ts width ys
    by (induction ys arbitrary: ts) (simp_all add: is_boxes_scan_row)
  then show ?thesis by (simp add: GenerateMeshFromImage_def Let_def is_boxes_Nil)
qed

lemma length_boxes: "length (concat (map (box_of z) bs)) = 12 * length bs"
  by (induction bs) (auto simp add: box_of_def length_box)


text \<open>
  Claim C3. \<open>AddBox\<close> leaves the triangles it is given in place and appends exactly 12: six
  quads of two triangles each, lying in the planes \<open>Z = 0\<close>, \<open>Z = zHeight\<close>, \<open>Y = y\<close>,
  \<open>X = x + w\<close>, \<open>Y = y + h\<close> and \<open>X = x\<close>. The box is closed: every directed edge of a triangle
  is matched by the opposite edge of another. The Z coordinates of its vertices are
  exactly 0 and the height. The mesh of an image is a sequence of whole boxes of the
  configured height (no face is left out where boxes touch), so its triangle count is 12
  times the number of boxes.
\<close>

theorem AddBox_closed_box:
  "AddBox ts x y w h z = ts @ AddBox [] x y w h z
   \<and> length (AddBox [] x y w h z) = 12
   \<and> (let b = AddBox [] x y w h z in
      on_plane pt_Z 0 (b ! 0) \<and> on_plane pt_Z 0 (b ! 1) \<and> is_quad (b ! 0) (b ! 1) \<and>
      on_plane pt_Z z (b ! 2) \<and> on_plane pt_Z z (b ! 3) \<and> is_quad (b ! 2) (b ! 3) \<and>
      on_plane pt_Y y (b ! 4) \<and> on_plane pt_Y y (b ! 5) \<and> is_quad (b ! 4) (b ! 5) \<and>
      on_plane pt_X (x + w) (b ! 6) \<and> on_plane pt_X (x + w) (b ! 7) \<and> is_quad (b ! 6) (b ! 7) \<and>
      on_plane pt_Y (y + h) (b ! 8) \<and> on_plane pt_Y (y + h) (b ! 9) \<and> is_quad (b ! 8) (b ! 9) \<and>
      on_plane pt_X x (b ! 10) \<and> on_plane pt_X x (b ! 11) \<and> is_quad (b ! 10) (b ! 11))
   \<and> (\<forall>e \<in> set (mesh_edges (AddBox [] x y w h z)). (snd e, fst e) \<in> set (mesh_edges (AddBox [] x y w h z)))
   \<and> pt_Z ` set (concat (map vertices (AddBox [] x y w h z))) = {0, z}
   \<and> (\<exists>bs. GenerateMeshFromImage img StencilHeight = concat (map (box_of StencilHeight) bs)
          \<and> length (GenerateMeshFromImage img StencilHeight) = 12 * length bs)"
proof -
  from is_boxes_mesh[of StencilHeight img] obtain bs
    where "GenerateMeshFromImage img StencilHeight = concat (map (box_of StencilHeight) bs)"
    by (auto simp: is_boxes_def)
  then have "\<exists>bs. GenerateMeshFromImage img StencilHeight = concat (map (box_of StencilHeight) bs)
          \<and> length (GenerateMeshFromImage img StencilHeight) = 12 * length bs"
    using length_boxes by metis
  then show ?thesis
    using AddBox_append[of ts x y w h z] length_box[of x y w h z] box_planes[of x y w h z]
      box_closed[of x y w h z] box_Z[of x y w h z]
    by blast
qed

theorem AddBox_closed_box_witness:
  "length (AddBox [] 0 0 3 1 0.2) = 12
   \<and> pt_Z ` set (concat (map vertices (AddBox [] 0 0 3 1 0.2))) = {0, 0.2}
   \<and> (\<lparr>pt_X = 3, pt_Y = 0, pt_Z = 0\<rparr>, \<lparr>pt_X = 0, pt_Y = 0, pt_Z = 0\<rparr>)
        \<in> set (mesh_edges (AddBox [] 0 0 3 1 0.2))
   \<and> (\<lparr>pt_X = 0, pt_Y = 0, pt_Z = 0\<rparr>, \<lparr>pt_X = 3, pt_Y = 0, pt_Z = 0\<rparr>)
        \<in> set (mesh_edges (AddBox [] 0 0 3 1 0.2))"
proof -
  have e: "(\<lparr>pt_X = 3, pt_Y = 0, pt_Z = 0\<rparr>, \<lparr>pt_X = 0, pt_Y = 0, pt_Z = 0\<rparr>)
        \<in> set (mesh_edges (AddBox [] 0 0 3 1 0.2))"
    by (simp add: AddBox_def addQuad_def Let_def tri_edges_def mesh_edges_def)
  from AddBox_closed_box[of "[]" 0 0 3 1 "0.2"] e show ?thesis by fastforce
qed

section \<open>Rendering: undefined apertures and unknown primitives\<close>

lemma to_int_numeral [simp]: "to_int (numeral n) = numeral n"
  by (simp add: to_int_def)

lemma to_int_zero [simp]: "to_int 0 = 0"
  by (simp add: to_int_def)

lemma render_cmd_no_aperture:
  assumes "cmd_Type cmd = ''FLASH'' \<or> cmd_Type cmd = ''DRAW''" "Apertures st curDCode = None"
  shows "render_cmd st b heightMM scale (img, curX, curY, curDCode) cmd
           = Inr (img, (case cmd_X cmd of Some v \<Rightarrow> v | None \<Rightarrow> curX),
                  (case cmd_Y cmd of Some v \<Rightarrow> v | None \<Rightarrow> curY), curDCode)"
  using assms by (auto simp add: render_cmd_def Let_def)

lemma drawPrimitive_unknown:
  "prim_Code prim \<noteq> 1 \<Longrightarrow> prim_Code prim \<noteq> 21 \<Longrightarrow> drawPrimitive x y scale prim img = img"
  by (simp add: drawPrimitive_def)

lemma drawAperture_unknown:
  assumes "ap_Type ap \<noteq> ''C''" "ap_Type ap \<noteq> ''R''" "ap_Type ap \<noteq> ''O''"
    "Macros st (ap_Type ap) = None"
  shows "drawAperture st img x y ap scale = img"
  using assms by (simp add: drawAperture_def ApertureCircle_def ApertureRect_def ApertureObround_def)

lemma render_cmds_no_apertures:
  assumes "Apertures st = Map.empty"
    "\<forall>c \<in> set cmds. cmd_Type c \<noteq> ''APERTURE'' \<or> cmd_D c \<noteq> None"
  shows "\<exists>x y d. render_cmds st b heightMM scale (img, curX, curY, curDCode) cmds = Inr (img, x, y, d)"
  using assms(2)
proof (induction cmds arbitrary: curX curY curDCode)
  case Nil
  show ?case by simp
next
  case (Cons c cmds)
  have "\<exists>x y d. render_cmd st b heightMM scale (img, curX, curY, curDCode) c = Inr (img, x, y, d)"
  proof (cases "cmd_Type c = ''APERTURE''")
    case True
    with Cons.prems obtain d where "cmd_D c = Some d" by auto
    with True show ?thesis by (simp add: render_cmd_def)
  next
    case False
    then show ?thesis using assms(1) by (simp add: render_cmd_def Let_def)
  qed
  then obtain x y d where "render_cmd st b heightMM scale (img, curX, curY, curDCode) c = Inr (img, x, y, d)"
    by blast
  moreover from Cons.prems have "\<forall>c \<in> set cmds. cmd_Type c \<noteq> ''APERTURE'' \<or> cmd_D c \<noteq> None"
    by simp
  ultimately show ?case using Cons.IH[of x y d] by simp
qed


text \<open>
  Claim C4. A flash or draw command whose selected aperture code has no entry in the
  aperture table leaves the image as it is, moves the pen (each axis the command gives,
  the other unchanged) and raises nothing. A macro primitive whose code is neither 1 nor
  21 stamps nothing, and so does an aperture whose type is no standard shape and no
  macro name. With an empty aperture table a whole command sequence renders to the
  initial image without a panic.
\<close>

theorem undefined_aperture_is_skipped:
  "((cmd_Type cmd = ''FLASH'' \<or> cmd_Type cmd = ''DRAW'') \<and> Apertures st curDCode = None \<longrightarrow>
      render_cmd st b heightMM scale (img, curX, curY, curDCode) cmd
        = Inr (img, (case cmd_X cmd of Some v \<Rightarrow> v | None \<Rightarrow> curX),
                  (case cmd_Y cmd of Some v \<Rightarrow> v | None \<Rightarrow> curY), curDCode))
   \<and> (prim_Code prim \<noteq> 1 \<and> prim_Code prim \<noteq> 21 \<longrightarrow> drawPrimitive x y scale prim img = img)
   \<and> (ap_Type ap \<noteq> ''C'' \<and> ap_Type ap \<noteq> ''R'' \<and> ap_Type ap \<noteq> ''O'' \<and> Macros st (ap_Type ap) = None \<longrightarrow>
        drawAperture st img x y ap scale = img)
   \<and> (Apertures st = Map.empty \<and> (\<forall>c \<in> set cmds. cmd_Type c \<noteq> ''APERTURE'' \<or> cmd_D c \<noteq> None) \<longrightarrow>
        (\<exists>x' y' d'. render_cmds st b heightMM scale (img, curX, curY, curDCode) cmds = Inr (img, x', y', d')))"
  using render_cmd_no_aperture[of cmd st curDCode b heightMM scale img curX curY]
    drawPrimitive_unknown[of prim x y scale img]
    drawAperture_unknown[of ap st img x y scale]
    render_cmds_no_apertures[of st cmds b heightMM scale img curX curY curDCode]
  by blast

theorem undefined_aperture_is_skipped_witness:
  "render_cmd (State NewGerberFile) \<lparr>MinX = - 2, MinY = - 2, MaxX = 12, MaxY = 12\<rparr> 14 1
      (\<lparr>img_Rect = Rect 0 0 14 14, img_White = {}\<rparr>, 0, 0, 10)
      \<lparr>cmd_Type = ''FLASH'', cmd_X = Some 5, cmd_Y = None, cmd_D = Some 3\<rparr>
     = Inr (\<lparr>img_Rect = Rect 0 0 14 14, img_White = {}\<rparr>, 5, 0, 10)
   \<and> drawPrimitive 7 7 1 \<lparr>prim_Code = 4, prim_Modifiers = [1, 2, 3]\<rparr>
        \<lparr>img_Rect = Rect 0 0 14 14, img_White = {}\<rparr>
     = \<lparr>img_Rect = Rect 0 0 14 14, img_White = {}\<rparr>
   \<and> drawAperture (State NewGerberFile) \<lparr>img_Rect = Rect 0 0 14 14, img_White = {}\<rparr> 7 7
        \<lparr>ap_Type = ''RoundRect'', ap_Modifiers = [1, 2]\<rparr> 1
     = \<lparr>img_Rect = Rect 0 0 14 14, img_White = {}\<rparr>"
  using undefined_aperture_is_skipped
    [of "\<lparr>cmd_Type = ''FLASH'', cmd_X = Some 5, cmd_Y = None, cmd_D = Some 3\<rparr>"
        "State NewGerberFile" 10 "\<lparr>MinX = - 2, MinY = - 2, MaxX = 12, MaxY = 12\<rparr>" 14 1
        "\<lparr>img_Rect = Rect 0 0 14 14, img_White = {}\<rparr>" 0 0
        "\<lparr>prim_Code = 4, prim_Modifiers = [1, 2, 3]\<rparr>" 7 7
        "\<lparr>ap_Type = ''RoundRect'', ap_Modifiers = [1, 2]\<rparr>" "[]"]
  by (simp add: NewGerberFile_def)

section \<open>Statements without a draw, move or flash code\<close>











section \<open>Drawing bounds\<close>



















section \<open>Centred rectangles of macros\<close>

text \<open>The rotation of a centred rectangle after normalisation, and whether it swaps the sides.\<close>

definition norm_rot :: "real \<Rightarrow> real" where
  "norm_rot rot = (let r = math_Mod rot 360 in if r < 0 then r + 360 else r)"

definition swaps_sides :: "real \<Rightarrow> bool" where
  "swaps_sides rot = (\<bar>norm_rot rot - 90\<bar> < 1 \<or> \<bar>norm_rot rot - 270\<bar> < 1)"

lemma to_int_bounds:
  "0 \<le> r \<Longrightarrow> real_of_int (to_int r) \<le> r \<and> r < real_of_int (to_int r) + 1"
  "r < 0 \<Longrightarrow> r \<le> real_of_int (to_int r) \<and> real_of_int (to_int r) - 1 < r"
  by (simp_all add: to_int_def) linarith+

lemma math_Mod_range:
  assumes "0 < y"
  shows "0 \<le> x \<Longrightarrow> 0 \<le> math_Mod x y \<and> math_Mod x y < y"
    and "x < 0 \<Longrightarrow> - y < math_Mod x y \<and> math_Mod x y \<le> 0"
proof -
  assume x: "0 \<le> x"
  then have q: "0 \<le> x / y" using assms by simp
  from to_int_bounds(1)[OF q]
  have "real_of_int (to_int (x / y)) * y \<le> x" "x < (real_of_int (to_int (x / y)) + 1) * y"
    using assms by (simp_all add: pos_le_divide_eq pos_divide_less_eq)
  then show "0 \<le> math_Mod x y \<and> math_Mod x y < y"
    by (simp add: math_Mod_def algebra_simps)
next
  assume x: "x < 0"
  then have q: "x / y < 0" using assms by (simp add: divide_neg_pos)
  from to_int_bounds(2)[OF q]
  have "x \<le> real_of_int (to_int (x / y)) * y" "(real_of_int (to_int (x / y)) - 1) * y < x"
    using assms by (simp_all add: pos_divide_le_eq pos_less_divide_eq)
  then show "- y < math_Mod x y \<and> math_Mod x y \<le> 0"
    by (simp add: math_Mod_def algebra_simps)
qed

lemma norm_rot_range: "0 \<le> norm_rot rot \<and> norm_rot rot < 360"
proof (cases "0 \<le> rot")
  case True
  from math_Mod_range(1)[of 360 rot] True show ?thesis by (simp add: norm_rot_def Let_def)
next
  case False
  then have "rot < 0" by simp
  from math_Mod_range(2)[of 360 rot, OF _ this] show ?thesis
    by (auto simp add: norm_rot_def Let_def)
qed



text \<open>
  Claim C9, as the code has it. For a primitive of code 21 with at least six modifiers the
  rotation is normalised into \<open>[0, 360)\<close>; the sides are swapped when the normalised
  rotation is less than one degree away from 90 or from 270, and kept otherwise; the
  rectangle drawn is axis-aligned, centred at the flash point offset by \<open>centerX\<close> to the
  right and \<open>centerY\<close> upwards (raster Y grows downwards), with half the scaled width and
  height, truncated, on each side.
\<close>

theorem centered_rect_rotation:
  "prim_Code prim = 21 \<and> length (prim_Modifiers prim) \<ge> 6 \<longrightarrow>
     0 \<le> norm_rot (prim_Modifiers prim ! 5) \<and> norm_rot (prim_Modifiers prim ! 5) < 360
     \<and> drawPrimitive x y scale prim img =
        (let width = prim_Modifiers prim ! 1;
             height = prim_Modifiers prim ! 2;
             swap = swaps_sides (prim_Modifiers prim ! 5);
             w = to_int ((if swap then height else width) * scale);
             h = to_int ((if swap then width else height) * scale);
             rx = x + to_int (prim_Modifiers prim ! 3 * scale);
             ry = y - to_int (prim_Modifiers prim ! 4 * scale)
         in Draw img (Rect (rx - w sdiv 2) (ry - h sdiv 2) (rx + w sdiv 2) (ry + h sdiv 2)) True)"
  using norm_rot_range[of "prim_Modifiers prim ! 5"]
  by (simp add: drawPrimitive_def Let_def norm_rot_def swaps_sides_def)


lemma norm_rot_90: "norm_rot 90 = 90"
  by (simp add: norm_rot_def math_Mod_def to_int_def Let_def)

theorem centered_rect_rotation_witness:
  "0 \<le> norm_rot 90 \<and> norm_rot 90 < 360
   \<and> drawPrimitive 5 5 1 \<lparr>prim_Code = 21, prim_Modifiers = [1, 4, 2, 0, 0, 90]\<rparr>
        \<lparr>img_Rect = Rect 0 0 10 10, img_White = {}\<rparr>
      = Draw \<lparr>img_Rect = Rect 0 0 10 10, img_White = {}\<rparr> (Rect 4 3 6 7) True"
  using centered_rect_rotation
    [of "\<lparr>prim_Code = 21, prim_Modifiers = [1, 4, 2, 0, 0, 90]\<rparr>" 5 5 1
        "\<lparr>img_Rect = Rect 0 0 10 10, img_White = {}\<rparr>"]
  by (simp add: swaps_sides_def norm_rot_90 Let_def signed_divide_int_def)

text \<open>
  The claim as written fails: a rotation of 90.5 degrees is neither 90 nor 270, yet the
  sides are swapped. With width 4 and height 2 the rectangle drawn is 2 wide and 4 high,
  not the unrotated one.
\<close>

lemma math_Mod_ex: "math_Mod (181 / 2) 360 = 181 / 2"
  by (simp add: math_Mod_def to_int_def)

lemma norm_rot_ex: "norm_rot (181 / 2) = 181 / 2"
  by (simp add: norm_rot_def math_Mod_ex Let_def)

lemma cex1: "drawPrimitive 5 5 1 \<lparr>prim_Code = 21, prim_Modifiers = [1, 4, 2, 0, 0, 90.5]\<rparr>
        \<lparr>img_Rect = Rect 0 0 10 10, img_White = {}\<rparr>
      = Draw \<lparr>img_Rect = Rect 0 0 10 10, img_White = {}\<rparr> (Rect 4 3 6 7) True"
    by (simp add: drawPrimitive_def Let_def math_Mod_ex signed_divide_int_def)

lemma cex2: "(4, 3) \<in> img_White (Draw \<lparr>img_Rect = Rect 0 0 10 10, img_White = {}\<rparr> (Rect 4 3 6 7) True)"
    by (simp add: Draw_def Rect_def Intersect_def rect_points_def Let_def)

lemma cex3: "(4, 3) \<notin> img_White (Draw \<lparr>img_Rect = Rect 0 0 10 10, img_White = {}\<rparr> (Rect 3 4 7 6) True)"
    by (simp add: Draw_def Rect_def Intersect_def rect_points_def Let_def)

theorem centered_rect_near_90_counterexample:
  "norm_rot 90.5 \<noteq> 90 \<and> norm_rot 90.5 \<noteq> 270
   \<and> drawPrimitive 5 5 1 \<lparr>prim_Code = 21, prim_Modifiers = [1, 4, 2, 0, 0, 90.5]\<rparr>
        \<lparr>img_Rect = Rect 0 0 10 10, img_White = {}\<rparr>
      = Draw \<lparr>img_Rect = Rect 0 0 10 10, img_White = {}\<rparr> (Rect 4 3 6 7) True
   \<and> Draw \<lparr>img_Rect = Rect 0 0 10 10, img_White = {}\<rparr> (Rect 4 3 6 7) True
      \<noteq> Draw \<lparr>img_Rect = Rect 0 0 10 10, img_White = {}\<rparr> (Rect 3 4 7 6) True"
proof -
  let ?A = "Draw \<lparr>img_Rect = Rect 0 0 10 10, img_White = {}\<rparr> (Rect 4 3 6 7) True"
  let ?B = "Draw \<lparr>img_Rect = Rect 0 0 10 10, img_White = {}\<rparr> (Rect 3 4 7 6) True"
  have "?A \<noteq> ?B"
  proof
    assume "?A = ?B"
    then have "img_White ?A = img_White ?B" by (rule arg_cong)
    with cex2 cex3 show False by blast
  qed
  moreover have "norm_rot 90.5 \<noteq> 90 \<and> norm_rot 90.5 \<noteq> 270"
    by (simp add: norm_rot_ex)
  ultimately show ?thesis using cex1 by blast
qed

section \<open>Raster size\<close>

text \<open>A command list in which every aperture selection carries its code, as every list
  the interpreter builds does.\<close>

definition selects_have_code :: "GerberCommand list \<Rightarrow> bool" where
  "selects_have_code cmds = list_all (\<lambda>c. cmd_Type c = ''APERTURE'' \<longrightarrow> cmd_D c \<noteq> None) cmds"


















section \<open>Parsing never fails on text\<close>

text \<open>An input that cannot be read: the file does not open, or a read fails later.\<close>

definition unreadable :: "os_error + opened_file \<Rightarrow> bool" where
  "unreadable file = (case file of Inl err \<Rightarrow> True | Inr (lines, scan_err) \<Rightarrow> scan_err \<noteq> None)"

lemma apply_field_Type:
  "cmd_Type cmd \<in> {''MOVE'', ''DRAW'', ''FLASH''} \<Longrightarrow>
   cmd_Type (apply_field st cmd m) \<in> {''MOVE'', ''DRAW'', ''FLASH''}"
  by (simp add: apply_field_def Let_def)

lemma foldl_apply_field_Type:
  "cmd_Type cmd \<in> {''MOVE'', ''DRAW'', ''FLASH''} \<Longrightarrow>
   cmd_Type (foldl (apply_field st) cmd ms) \<in> {''MOVE'', ''DRAW'', ''FLASH''}"
  by (induction ms arbitrary: cmd) (simp_all only: foldl.simps apply_field_Type)

lemma parse_part_selects:
  assumes "selects_have_code cmds"
  shows "selects_have_code (parse_part st cmds part)"
proof -
  let ?c0 = "\<lparr>cmd_Type = ''MOVE'', cmd_X = None, cmd_Y = None, cmd_D = None\<rparr>"
  have "cmd_Type (foldl (apply_field st) ?c0 ms) \<noteq> ''APERTURE''" for ms
    using foldl_apply_field_Type[of ?c0 st ms] by auto
  then show ?thesis
    using assms by (simp add: parse_part_def Let_def selects_have_code_def)
qed

lemma fold_parse_part_selects:
  "selects_have_code cmds \<Longrightarrow>
   selects_have_code (fold (\<lambda>part cmds. parse_part st cmds part) parts cmds)"
  by (induction parts arbitrary: cmds) (simp_all add: parse_part_selects)

lemma parse_lines_selects:
  "selects_have_code (Commands gf) \<Longrightarrow> selects_have_code (Commands (parse_lines ls gf))"
proof (induction ls gf rule: parse_lines.induct)
  case (1 gf)
  then show ?case by simp
next
  case (2 l ls gf)
  show ?case
    using 2 by (simp add: Let_def fold_parse_part_selects)
qed

lemma parse_lines_NewGerberFile_selects:
  "selects_have_code (Commands (parse_lines ls NewGerberFile))"
  by (rule parse_lines_selects) (simp add: NewGerberFile_def selects_have_code_def)


text \<open>
  Claim C6. On a file that cannot be opened \<open>ParseGerber\<close> fails, and nothing else makes it
  fail: for every text the scanner delivers it returns a file. A directive of no known
  kind, a format or aperture directive its pattern does not match, and a statement
  without fields that is no aperture selection change nothing, and every selection built
  carries its code. But a read error after the file opened is not reported: the next
  theorem evaluates the code there.
\<close>

theorem ParseGerber_never_fails_on_text:
  "(ParseGerber src = Inl err \<longleftrightarrow> src = Inl err)
   \<and> ParseGerber (Inr (delivered, scan_err)) = Inr (parse_lines delivered NewGerberFile)
   \<and> selects_have_code (Commands (parse_lines delivered NewGerberFile))
   \<and> (HasPrefix (TrimSpace l) ''%'' \<and> \<not> HasPrefix (TrimSpace l) ''%FS''
        \<and> \<not> HasPrefix (TrimSpace l) ''%AD'' \<and> \<not> HasPrefix (TrimSpace l) ''%AM''
        \<and> \<not> HasPrefix (TrimSpace l) ''%MO'' \<longrightarrow>
      parse_lines (l # ls) gf = parse_lines ls gf)
   \<and> (FindStringSubmatch reFS line = None \<longrightarrow> directive_FS line st = st)
   \<and> (FindStringSubmatch reAD line = None \<longrightarrow> directive_AD line st = st)
   \<and> (FindAllStringSubmatch reCoord (TrimSpace part) = []
        \<and> \<not> (HasPrefix (TrimSpace part) ''D'' \<and> length (TrimSpace part) \<ge> 2
              \<and> snd (Atoi (drop 1 (TrimSpace part))) \<and> fst (Atoi (drop 1 (TrimSpace part))) \<ge> 10) \<longrightarrow>
      parse_part st cmds part = cmds)"
proof -
  have 1: "ParseGerber src = Inl err \<longleftrightarrow> src = Inl err"
    by (auto simp add: ParseGerber_def split: sum.splits prod.splits)
  have 2: "ParseGerber (Inr (delivered, scan_err)) = Inr (parse_lines delivered NewGerberFile)"
    by (simp add: ParseGerber_def)
  have 3: "HasPrefix (TrimSpace l) ''%'' \<and> \<not> HasPrefix (TrimSpace l) ''%FS''
        \<and> \<not> HasPrefix (TrimSpace l) ''%AD'' \<and> \<not> HasPrefix (TrimSpace l) ''%AM''
        \<and> \<not> HasPrefix (TrimSpace l) ''%MO'' \<longrightarrow>
      parse_lines (l # ls) gf = parse_lines ls gf"
    by (auto simp add: Let_def HasPrefix_def)
  have 4: "FindStringSubmatch reFS line = None \<longrightarrow> directive_FS line st = st"
    by (simp add: directive_FS_def)
  have 5: "FindStringSubmatch reAD line = None \<longrightarrow> directive_AD line st = st"
    by (simp add: directive_AD_def)
  have 6: "FindAllStringSubmatch reCoord (TrimSpace part) = []
        \<and> \<not> (HasPrefix (TrimSpace part) ''D'' \<and> length (TrimSpace part) \<ge> 2
              \<and> snd (Atoi (drop 1 (TrimSpace part))) \<and> fst (Atoi (drop 1 (TrimSpace part))) \<ge> 10) \<longrightarrow>
      parse_part st cmds part = cmds"
    by (auto simp add: parse_part_def Let_def)
  from 1 2 3 4 5 6 parse_lines_NewGerberFile_selects[of delivered] show ?thesis by blast
qed


lemma reCoord_none_ex: "FindAllStringSubmatch reCoord ''G04'' = []"
  by code_simp

theorem ParseGerber_never_fails_on_text_witness:
  "ParseGerber (Inr ([''%XY*%''], None)) = Inr (parse_lines [''%XY*%''] NewGerberFile)
   \<and> parse_lines [''%XY*%''] NewGerberFile = NewGerberFile
   \<and> parse_part (State NewGerberFile) [] ''G04'' = []"
proof -
  have t: "TrimSpace ''%XY*%'' = ''%XY*%''" "TrimSpace ''G04'' = ''G04''"
    by (simp_all add: TrimSpace_def isSpace_def)
  from ParseGerber_never_fails_on_text
    [where src = "Inr ([''%XY*%''], None)" and delivered = "[''%XY*%'']" and scan_err = None
       and l = "''%XY*%''" and ls = "[]" and gf = NewGerberFile and part = "''G04''"
       and st = "State NewGerberFile" and cmds = "[]"]
  show ?thesis
    by (simp add: t HasPrefix_def reCoord_none_ex)
qed

theorem ParseGerber_ignores_read_error:
  "unreadable (Inr ([], Some ''read: is a directory''))
   \<and> ParseGerber (Inr ([], Some ''read: is a directory'')) = Inr NewGerberFile"
  by (simp add: unreadable_def ParseGerber_def)
end
